theory Spec2Isabelle
  imports Main
begin

section \<open>Values, errors, requests and responses\<close>

text \<open>
  The client of \<^verbatim>\<open>appveyor_client/client.py\<close> handles Python values built from
  \<^verbatim>\<open>None\<close>, booleans, integers, strings, lists and dictionaries: the arguments of
  the methods, the dictionaries passed to \<^verbatim>\<open>json.dumps\<close> and the values that
  \<^verbatim>\<open>response.json()\<close> returns. A dictionary is an association list in insertion
  order. Strings have 8-bit characters, read as the code points 0 to 255.
\<close>

datatype pyval =
    PNone
  | PBool bool
  | PInt int
  | PStr string
  | PList "pyval list"
  | PDict "(string \<times> pyval) list"

text \<open>
  The exceptions of the module (\<^verbatim>\<open>AppveyorError\<close>, raised with a dictionary or a
  string, and \<^verbatim>\<open>AppveyorClientError\<close>, raised with a string) and the built-in
  exceptions its statements can raise. \<^verbatim>\<open>UnboundLocalError\<close> carries the name of the
  local variable, \<^verbatim>\<open>KeyError\<close> the key and \<^verbatim>\<open>AttributeError\<close> the attribute.
  \<^verbatim>\<open>TransportError\<close> stands for whatever the HTTP session raises when no response
  arrives.
\<close>

datatype error =
    AppveyorError pyval
  | AppveyorClientError string
  | UnboundLocalError string
  | ValueError
  | TypeError
  | KeyError string
  | AttributeError string
  | TransportError

text \<open>
  What \<^verbatim>\<open>_parse_response_contents\<close> reads of a response: \<^verbatim>\<open>response.status_code\<close>,
  \<^verbatim>\<open>response.text\<close> and \<^verbatim>\<open>response.json()\<close>, which is \<open>None\<close> when the call
  raises (the body does not decode) and \<open>Some v\<close> when it returns \<open>v\<close>.
\<close>

record response =
  resp_status_code :: int
  resp_text :: string
  resp_json :: "pyval option"

text \<open>
  A request as the session receives it: the verb of the session method called, the full
  URL, and the keyword arguments \<^verbatim>\<open>data\<close> and \<^verbatim>\<open>json\<close> (\<open>None\<close> when the call
  does not pass them).
\<close>

record request =
  req_verb :: string
  req_url :: string
  req_data :: "string option"
  req_json :: "pyval option"

text \<open>
  The client holds its endpoint and its session. The session is the outside world: it
  answers a request with a response or raises.
\<close>

record client =
  endpoint :: string
  session :: "request \<Rightarrow> error + response"

section \<open>Python primitives used by the client\<close>

text \<open>Truth value of a Python value, as \<^verbatim>\<open>if x:\<close> and \<^verbatim>\<open>not x\<close> test it.\<close>

fun truthy :: "pyval \<Rightarrow> bool" where
  "truthy PNone = False"
| "truthy (PBool b) = b"
| "truthy (PInt n) = (n \<noteq> 0)"
| "truthy (PStr s) = (s \<noteq> [])"
| "truthy (PList xs) = (xs \<noteq> [])"
| "truthy (PDict d) = (d \<noteq> [])"

text \<open>\<^verbatim>\<open>d[k] = v\<close> on a dictionary: an existing key keeps its place, a new key goes last.\<close>

fun dict_set :: "(string \<times> pyval) list \<Rightarrow> string \<Rightarrow> pyval \<Rightarrow> (string \<times> pyval) list" where
  "dict_set [] k v = [(k, v)]"
| "dict_set ((k', v') # d) k v = (if k' = k then (k, v) # d else (k', v') # dict_set d k v)"

text \<open>\<^verbatim>\<open>x[k] = v\<close> on any value: only a dictionary takes a string key.\<close>

fun setitem :: "pyval \<Rightarrow> string \<Rightarrow> pyval \<Rightarrow> error + pyval" where
  "setitem (PDict d) k v = Inr (PDict (dict_set d k v))"
| "setitem _ k v = Inl TypeError"

text \<open>\<^verbatim>\<open>x[k]\<close> with a string key.\<close>

fun getitem :: "pyval \<Rightarrow> string \<Rightarrow> error + pyval" where
  "getitem (PDict d) k = (case map_of d k of None \<Rightarrow> Inl (KeyError k) | Some v \<Rightarrow> Inr v)"
| "getitem _ k = Inl TypeError"

text \<open>
  \<^verbatim>\<open>str.strip()\<close>: the white space of Python among the code points 0 to 255 is
  9 to 13, 28 to 32, 133 and 160.
\<close>

definition is_space :: "char \<Rightarrow> bool" where
  "is_space c = (let n = (of_char c :: nat) in
     (9 \<le> n \<and> n \<le> 13) \<or> (28 \<le> n \<and> n \<le> 32) \<or> n = 133 \<or> n = 160)"

definition strip :: "string \<Rightarrow> string" where
  "strip s = rev (dropWhile is_space (rev (dropWhile is_space s)))"

text \<open>
  \<^verbatim>\<open>str.lower()\<close>: the upper-case letters among the code points 0 to 255 are
  65 to 90, 192 to 214 and 216 to 222; each has its lower-case letter 32 places on.
\<close>

definition lower_char :: "char \<Rightarrow> char" where
  "lower_char c = (let n = (of_char c :: nat) in
     if (65 \<le> n \<and> n \<le> 90) \<or> (192 \<le> n \<and> n \<le> 214) \<or> (216 \<le> n \<and> n \<le> 222)
     then char_of (n + 32) else c)"

definition lower :: "string \<Rightarrow> string" where
  "lower s = map lower_char s"

section \<open>The response interpreter\<close>

text \<open>
  The message built by \<^verbatim>\<open>textwrap.dedent('''...''')[1:]\<close> in
  \<^verbatim>\<open>_parse_response_contents\<close>: the common indentation of twenty spaces is removed,
  the last line, of spaces only, becomes empty, and the leading newline is dropped.
\<close>

definition generic_error_msg :: string where
  "generic_error_msg =
     ''Unexpected error'' @ [CHR 0x0A] @
     ''    Possible reasons are:'' @ [CHR 0x0A] @
     ''     - Communication with Appveyor has failed.'' @ [CHR 0x0A] @
     ''     - Insufficient permissions.'' @ [CHR 0x0A] @
     ''     - Invalid contents returned.'' @ [CHR 0x0A]"

text \<open>
  \<^verbatim>\<open>AppveyorClient._parse_response_contents\<close>. The \<^verbatim>\<open>try\<close> block decodes the body
  only when the status code is 200 and takes the empty dictionary otherwise, so the
  \<^verbatim>\<open>except\<close> block runs only when \<^verbatim>\<open>response.json()\<close> raises. There
  \<^verbatim>\<open>error_msg\<close> is assigned only when the stripped text is empty; building the
  dictionary with a non-empty text reads the unassigned variable. Returning without a
  value returns \<^verbatim>\<open>None\<close>.
\<close>

definition parse_response_contents :: "response \<Rightarrow> error + pyval" where
  "parse_response_contents response =
     (let status_code = resp_status_code response in
      case (if status_code = 200 then resp_json response else Some (PDict [])) of
        None \<Rightarrow>
          (let err = strip (resp_text response) in
           if err = [] then
             Inl (AppveyorError (PDict [(''status_code'', PInt status_code),
                                        (''error'', PStr generic_error_msg)]))
           else Inl (UnboundLocalError ''error_msg''))
      | Some contents \<Rightarrow>
          if status_code = 200 then Inr contents
          else if status_code = 204 then Inr PNone
          else (case setitem contents ''status_code'' (PInt status_code) of
                  Inl e \<Rightarrow> Inl e
                | Inr contents' \<Rightarrow> Inl (AppveyorError contents')))"

text \<open>
  The fields of the failure record: the dictionary an \<^verbatim>\<open>AppveyorError\<close> was raised
  with, read at a key. A normal return and every other exception have no record.
\<close>

fun failure_field :: "error + pyval \<Rightarrow> string \<Rightarrow> pyval option" where
  "failure_field (Inl (AppveyorError (PDict d))) k = map_of d k"
| "failure_field _ k = None"

section \<open>Strings: splitting, formatting, printing\<close>

text \<open>
  \<^verbatim>\<open>s.split(' ')\<close>: the pieces between single spaces, empty pieces kept; the empty
  string gives one empty piece.
\<close>

fun split_space :: "string \<Rightarrow> string list" where
  "split_space [] = [[]]"
| "split_space (c # cs) =
     (if c = CHR '' '' then [] # split_space cs
      else (case split_space cs of [] \<Rightarrow> [[c]] | w # ws \<Rightarrow> (c # w) # ws))"

text \<open>
  \<^verbatim>\<open>template.format(**kwargs)\<close> for the templates of the client, whose replacement
  fields are plain names in braces: a field is replaced by the string of its keyword
  argument. The first argument is the name of the field being read, \<open>None\<close> outside a
  field. The string of each keyword argument is computed by the caller.
\<close>

fun format_from :: "string option \<Rightarrow> string \<Rightarrow> (string \<times> string) list \<Rightarrow> error + string" where
  "format_from None [] kwargs = Inr []"
| "format_from (Some name) [] kwargs = Inl ValueError"
| "format_from None (c # cs) kwargs =
     (if c = CHR ''{'' then format_from (Some []) cs kwargs
      else if c = CHR ''}'' then Inl ValueError
      else (case format_from None cs kwargs of Inl e \<Rightarrow> Inl e | Inr s \<Rightarrow> Inr (c # s)))"
| "format_from (Some name) (c # cs) kwargs =
     (if c = CHR ''}'' then
        (case map_of kwargs name of
           None \<Rightarrow> Inl (KeyError name)
         | Some v \<Rightarrow> (case format_from None cs kwargs of Inl e \<Rightarrow> Inl e | Inr s \<Rightarrow> Inr (v @ s)))
      else format_from (Some (name @ [c])) cs kwargs)"

definition str_format :: "string \<Rightarrow> (string \<times> string) list \<Rightarrow> error + string" where
  "str_format template kwargs = format_from None template kwargs"

text \<open>\<^verbatim>\<open>str(n)\<close> of an integer: its decimal digits, with a minus sign when negative.\<close>

definition digit_char :: "nat \<Rightarrow> char" where
  "digit_char d = char_of (48 + d)"

fun digits :: "nat \<Rightarrow> string" where
  "digits n = (if n < 10 then [digit_char n] else digits (n div 10) @ [digit_char (n mod 10)])"

declare digits.simps [simp del]

definition str_int :: "int \<Rightarrow> string" where
  "str_int i = (if i < 0 then CHR ''-'' # digits (nat (- i)) else digits (nat i))"

text \<open>
  Reading a decimal numeral back, as \<^verbatim>\<open>int(s)\<close> does for an optional minus sign
  followed by digits. It is used only to state what \<^verbatim>\<open>str(n)\<close> produces: a
  numeral that denotes \<open>n\<close>.
\<close>

definition digit_value :: "char \<Rightarrow> nat option" where
  "digit_value ch = (let n = (of_char ch :: nat) in
     if 48 \<le> n \<and> n \<le> 57 then Some (n - 48) else None)"

fun nat_of_decimal :: "string \<Rightarrow> nat \<Rightarrow> nat option" where
  "nat_of_decimal [] acc = Some acc"
| "nat_of_decimal (ch # cs) acc =
     (case digit_value ch of None \<Rightarrow> None | Some d \<Rightarrow> nat_of_decimal cs (10 * acc + d))"

definition int_of_decimal :: "string \<Rightarrow> int option" where
  "int_of_decimal s =
     (case s of
        [] \<Rightarrow> None
      | ch # cs \<Rightarrow>
          if ch = CHR ''-'' then
            (if cs = [] then None else map_option (\<lambda>n. - int n) (nat_of_decimal cs 0))
          else map_option int (nat_of_decimal s 0))"

text \<open>
  An identifier argument (\<^verbatim>\<open>user_id\<close>): \<^verbatim>\<open>None\<close>, its default, an integer or a
  string, with its truth value and its \<^verbatim>\<open>str\<close>, which a replacement field inserts.
\<close>

datatype ident = IdNone | IdInt int | IdStr string

fun truthy_ident :: "ident \<Rightarrow> bool" where
  "truthy_ident IdNone = False"
| "truthy_ident (IdInt n) = (n \<noteq> 0)"
| "truthy_ident (IdStr s) = (s \<noteq> [])"

fun str_ident :: "ident \<Rightarrow> string" where
  "str_ident IdNone = ''None''"
| "str_ident (IdInt n) = str_int n"
| "str_ident (IdStr s) = s"

text \<open>
  \<^verbatim>\<open>str(xs)\<close> of a list of strings that have no quote, no backslash and no
  non-printable character, as the provider names of \<^verbatim>\<open>Projects.add\<close>: each string
  in single quotes, separated by a comma and a space, in square brackets.
\<close>

definition repr_str :: "string \<Rightarrow> string" where
  "repr_str s = [CHR 0x27] @ s @ [CHR 0x27]"

fun join_comma :: "string list \<Rightarrow> string" where
  "join_comma [] = []"
| "join_comma [x] = x"
| "join_comma (x # y # ys) = x @ '', '' @ join_comma (y # ys)"

definition str_list :: "string list \<Rightarrow> string" where
  "str_list xs = ''['' @ join_comma (map repr_str xs) @ '']''"

section \<open>Request dispatch\<close>

text \<open>
  Every function that may send a request takes the list of the requests sent so far and
  returns it with its outcome, a request added at the end when the session was called.
\<close>

definition make_url :: "client \<Rightarrow> string \<Rightarrow> string" where
  "make_url c url = endpoint c @ url"

text \<open>
  A call of a session method followed by \<^verbatim>\<open>_parse_response_contents\<close>, the common
  body of \<^verbatim>\<open>_get\<close>, \<^verbatim>\<open>_post\<close>, \<^verbatim>\<open>_put\<close> and \<^verbatim>\<open>_delete\<close>.
\<close>

definition send :: "client \<Rightarrow> request \<Rightarrow> request list \<Rightarrow> (error + pyval) \<times> request list" where
  "send c req log =
     ((case session c req of Inl e \<Rightarrow> Inl e | Inr response \<Rightarrow> parse_response_contents response),
      log @ [req])"

text \<open>
  \<^verbatim>\<open>_get\<close> and \<^verbatim>\<open>_delete\<close> pass the URL only; \<^verbatim>\<open>_post\<close> and \<^verbatim>\<open>_put\<close> pass
  \<^verbatim>\<open>data\<close> and \<^verbatim>\<open>json\<close> on.
\<close>

definition AppveyorClient_get ::
  "client \<Rightarrow> string \<Rightarrow> string option \<Rightarrow> pyval option \<Rightarrow> request list \<Rightarrow> (error + pyval) \<times> request list" where
  "AppveyorClient_get c url data json log =
     send c \<lparr>req_verb = ''GET'', req_url = make_url c url, req_data = None, req_json = None\<rparr> log"

definition AppveyorClient_post ::
  "client \<Rightarrow> string \<Rightarrow> string option \<Rightarrow> pyval option \<Rightarrow> request list \<Rightarrow> (error + pyval) \<times> request list" where
  "AppveyorClient_post c url data json log =
     send c \<lparr>req_verb = ''POST'', req_url = make_url c url, req_data = data, req_json = json\<rparr> log"

definition AppveyorClient_put ::
  "client \<Rightarrow> string \<Rightarrow> string option \<Rightarrow> pyval option \<Rightarrow> request list \<Rightarrow> (error + pyval) \<times> request list" where
  "AppveyorClient_put c url data json log =
     send c \<lparr>req_verb = ''PUT'', req_url = make_url c url, req_data = data, req_json = json\<rparr> log"

definition AppveyorClient_delete ::
  "client \<Rightarrow> string \<Rightarrow> string option \<Rightarrow> pyval option \<Rightarrow> request list \<Rightarrow> (error + pyval) \<times> request list" where
  "AppveyorClient_delete c url data json log =
     send c \<lparr>req_verb = ''DELETE'', req_url = make_url c url, req_data = None, req_json = None\<rparr> log"

text \<open>
  \<^verbatim>\<open>AppveyorClient._request\<close>: the unpacking of \<^verbatim>\<open>method_url.split(' ')\<close> into two
  names raises \<^verbatim>\<open>ValueError\<close> unless there are exactly two pieces; the handler is
  looked up by the lower-cased method name. Every caller in the module passes a template
  that starts with \<^verbatim>\<open>GET\<close>, \<^verbatim>\<open>POST\<close>, \<^verbatim>\<open>PUT\<close> or \<^verbatim>\<open>DELETE\<close>; any other
  name is modelled as a failed attribute lookup.
\<close>

definition AppveyorClient_request ::
  "client \<Rightarrow> string \<Rightarrow> string option \<Rightarrow> pyval option \<Rightarrow> request list \<Rightarrow> (error + pyval) \<times> request list" where
  "AppveyorClient_request c method_url body json log =
     (case split_space method_url of
        [method, url] \<Rightarrow>
          (let name = ''_'' @ lower method in
           if name = ''_get'' then AppveyorClient_get c url body json log
           else if name = ''_post'' then AppveyorClient_post c url body json log
           else if name = ''_put'' then AppveyorClient_put c url body json log
           else if name = ''_delete'' then AppveyorClient_delete c url body json log
           else (Inl (AttributeError name), log))
      | _ \<Rightarrow> (Inl ValueError, log))"

section \<open>Resource methods\<close>

text \<open>
  \<^verbatim>\<open>Collaborators.get\<close>: the template starts with \<^verbatim>\<open>DELETE /api/users\<close>; the
  field \<^verbatim>\<open>/{user_id}\<close> is added when \<^verbatim>\<open>user_id\<close> is true.
\<close>

definition Collaborators_get :: "client \<Rightarrow> ident \<Rightarrow> request list \<Rightarrow> (error + pyval) \<times> request list" where
  "Collaborators_get c user_id log =
     (let method_url = ''DELETE /api/users'';
          method_url = (if truthy_ident user_id then method_url @ ''/{user_id}'' else method_url)
      in case str_format method_url [(''user_id'', str_ident user_id)] of
           Inl e \<Rightarrow> (Inl e, log)
         | Inr method_url \<Rightarrow> AppveyorClient_request c method_url None None log)"

text \<open>
  \<^verbatim>\<open>Roles.delete_role\<close>: the template is passed to \<^verbatim>\<open>_request\<close> as it is;
  \<^verbatim>\<open>role_id\<close> is not used.
\<close>

definition Roles_delete_role :: "client \<Rightarrow> pyval \<Rightarrow> request list \<Rightarrow> (error + pyval) \<times> request list" where
  "Roles_delete_role c role_id log =
     (let method_url = ''DELETE /api/roles/{role_id}''
      in AppveyorClient_request c method_url None None log)"

text \<open>\<^verbatim>\<open>Projects.get\<close>.\<close>

definition Projects_get :: "client \<Rightarrow> request list \<Rightarrow> (error + pyval) \<times> request list" where
  "Projects_get c log =
     (let method_url = ''GET /api/projects''
      in AppveyorClient_request c method_url None None log)"

text \<open>
  \<^verbatim>\<open>Projects.add\<close>. The serialiser \<^verbatim>\<open>json.dumps\<close> of the standard library is the
  parameter \<open>dumps\<close>.
\<close>

definition providers :: "string list" where
  "providers = [''gitHub'', ''bitBucket'', ''vso'', ''gitLab'', ''kiln'', ''stash'', ''git'',
                ''mercurial'', ''subversion'']"

definition Projects_add ::
  "(pyval \<Rightarrow> string) \<Rightarrow> client \<Rightarrow> pyval \<Rightarrow> pyval \<Rightarrow> request list \<Rightarrow> (error + pyval) \<times> request list" where
  "Projects_add dumps c repository_provider repository_name log =
     (let method_url = ''POST /api/projects'' in
      if repository_provider \<notin> set (map PStr providers) then
        (let error_msg = ''Invalid repository provider. Must be one of '' @ str_list providers
         in (Inl (AppveyorClientError error_msg), log))
      else
        (let data = PDict [(''repositoryProvider'', repository_provider),
                           (''repositoryName'', repository_name)];
             body = dumps data
         in AppveyorClient_request c method_url (Some body) None log))"

text \<open>
  \<^verbatim>\<open>Builds.start\<close>. The second test of the chain is
  \<^verbatim>\<open>commit and not commit and not pull_request_number\<close>, as the source has it.
\<close>

definition Builds_start ::
  "(pyval \<Rightarrow> string) \<Rightarrow> client \<Rightarrow> pyval \<Rightarrow> pyval \<Rightarrow> pyval \<Rightarrow> pyval \<Rightarrow> pyval \<Rightarrow> pyval
     \<Rightarrow> request list \<Rightarrow> (error + pyval) \<times> request list" where
  "Builds_start dumps c account_name project_slug branch pull_request_number commit
     environment_variables log =
     (let method_url = ''POST /api/builds'';
          data = [(''accountName'', account_name), (''projectSlug'', project_slug)];
          chosen =
            (if truthy branch \<and> \<not> truthy pull_request_number \<and> \<not> truthy commit then
               Inr (dict_set data ''branch'' branch)
             else if truthy commit \<and> \<not> truthy commit \<and> \<not> truthy pull_request_number then
               Inr (dict_set data ''commitId'' commit)
             else if truthy pull_request_number \<and> \<not> truthy commit \<and> \<not> truthy branch then
               Inr (dict_set data ''pullRequestId'' pull_request_number)
             else
               Inl (AppveyorClientError
                 (''Must provide only one of branch or one pull request '' @
                  ''id or one commit id'')))
      in case chosen of
           Inl e \<Rightarrow> (Inl e, log)
         | Inr data \<Rightarrow>
             (let data = (if truthy environment_variables
                          then dict_set data ''environmentVariables'' environment_variables
                          else data);
                  body = dumps (PDict data)
              in AppveyorClient_request c method_url (Some body) None log))"

section \<open>Looking a repository up\<close>

text \<open>
  \<^verbatim>\<open>for project in projects\<close>: a list gives its elements, a dictionary its keys, a
  string its characters; \<^verbatim>\<open>None\<close>, a boolean and an integer are not iterable.
\<close>

fun iter_values :: "pyval \<Rightarrow> error + pyval list" where
  "iter_values (PList xs) = Inr xs"
| "iter_values (PDict d) = Inr (map (\<lambda>kv. PStr (fst kv)) d)"
| "iter_values (PStr s) = Inr (map (\<lambda>ch. PStr [ch]) s)"
| "iter_values _ = Inl TypeError"

text \<open>\<^verbatim>\<open>x.lower()\<close>: only a string has the method.\<close>

fun py_lower :: "pyval \<Rightarrow> error + string" where
  "py_lower (PStr s) = Inr (lower s)"
| "py_lower _ = Inl (AttributeError ''lower'')"

text \<open>
  The loop of \<^verbatim>\<open>account_slug_for_repo\<close>. It returns \<open>Some\<close> of the two values
  assigned before \<^verbatim>\<open>break\<close>, and \<open>None\<close> when the loop ends with
  \<^verbatim>\<open>account_name\<close> and \<^verbatim>\<open>project_slug\<close> never assigned.
\<close>

fun find_project :: "pyval list \<Rightarrow> string \<Rightarrow> error + (pyval \<times> pyval) option" where
  "find_project [] repo_full_name = Inr None"
| "find_project (project # rest) repo_full_name =
     (case getitem project ''repositoryName'' of
        Inl e \<Rightarrow> Inl e
      | Inr name \<Rightarrow>
          (case py_lower name of
             Inl e \<Rightarrow> Inl e
           | Inr l \<Rightarrow>
               if l = lower repo_full_name then
                 (case getitem project ''accountName'' of
                    Inl e \<Rightarrow> Inl e
                  | Inr account_name \<Rightarrow>
                      (case getitem project ''slug'' of
                         Inl e \<Rightarrow> Inl e
                       | Inr project_slug \<Rightarrow> Inr (Some (account_name, project_slug))))
               else find_project rest repo_full_name))"

text \<open>
  \<^verbatim>\<open>AppveyorClient.account_slug_for_repo\<close>, for a string \<^verbatim>\<open>repo_full_name\<close>. After
  the loop the test reads \<^verbatim>\<open>account_name\<close> first; a variable that was never assigned
  raises \<^verbatim>\<open>UnboundLocalError\<close>.
\<close>

definition account_slug_for_repo ::
  "client \<Rightarrow> string \<Rightarrow> request list \<Rightarrow> (error + pyval \<times> pyval) \<times> request list" where
  "account_slug_for_repo c repo_full_name log =
     (case Projects_get c log of
        (Inl e, log') \<Rightarrow> (Inl e, log')
      | (Inr projects, log') \<Rightarrow>
          (case iter_values projects of
             Inl e \<Rightarrow> (Inl e, log')
           | Inr ps \<Rightarrow>
               (case find_project ps repo_full_name of
                  Inl e \<Rightarrow> (Inl e, log')
                | Inr None \<Rightarrow> (Inl (UnboundLocalError ''account_name''), log')
                | Inr (Some (account_name, project_slug)) \<Rightarrow>
                    if account_name = PNone \<and> project_slug = PNone then
                      (Inl (AppveyorError (PStr (''Repository full name '' @ [CHR 0x27]
                              @ repo_full_name @ [CHR 0x27] @ ''is invalid''))), log')
                    else (Inr (account_name, project_slug), log'))))"

section \<open>Facts about the primitives\<close>

lemma lower_GET: "lower ''GET'' = ''get''"
  by code_simp

lemma lower_POST: "lower ''POST'' = ''post''"
  by code_simp

lemma lower_DELETE: "lower ''DELETE'' = ''delete''"
  by code_simp

lemma split_space_no_space: "CHR '' '' \<notin> set s \<Longrightarrow> split_space s = [s]"
  by (induction s) auto

lemma split_space_not_Nil: "split_space s \<noteq> []"
  by (induction s) (auto split: list.splits)

lemma split_space_with_space:
  "CHR '' '' \<in> set s \<Longrightarrow> \<exists>w v ws. split_space s = w # v # ws"
proof (induction s)
  case Nil
  then show ?case by simp
next
  case (Cons c cs)
  show ?case
  proof (cases "c = CHR '' ''")
    case True
    then show ?thesis using split_space_not_Nil [of cs]
      by (cases "split_space cs") auto
  next
    case False
    with Cons.prems have "CHR '' '' \<in> set cs" by simp
    then obtain w v ws where "split_space cs = w # v # ws"
      using Cons.IH by blast
    with False show ?thesis by simp
  qed
qed

lemma digit_char_not_space: "d < 10 \<Longrightarrow> digit_char d \<noteq> CHR '' ''"
proof
  assume d: "d < 10" and "digit_char d = CHR '' ''"
  then have "(of_char (digit_char d) :: nat) = of_char (CHR '' '')" by simp
  then have "(48 + d) mod 256 = 32" by (simp add: digit_char_def)
  with d show False by simp
qed

lemma digits_no_space: "CHR '' '' \<notin> set (digits n)"
proof (induction n rule: digits.induct)
  case (1 n)
  show ?case
  proof (cases "n < 10")
    case True
    then show ?thesis using digit_char_not_space [of n] by (subst digits.simps) simp
  next
    case False
    have "n mod 10 < 10" by simp
    then have "digit_char (n mod 10) \<noteq> CHR '' ''" by (rule digit_char_not_space)
    with False 1 show ?thesis by (subst digits.simps) simp
  qed
qed

lemma str_int_no_space: "CHR '' '' \<notin> set (str_int i)"
  by (simp add: str_int_def digits_no_space)

text \<open>
  \<^verbatim>\<open>str(n)\<close> on numerals, and in general: the string is a decimal numeral that reads
  back as \<open>n\<close>.
\<close>

lemma str_int_42: "str_int 42 = ''42''"
  by code_simp

lemma str_int_3019: "str_int 3019 = ''3019''"
  by code_simp

lemma str_int_minus_7: "str_int (- 7) = ''-7''"
  by code_simp

lemma digit_value_digit_char: "d < 10 \<Longrightarrow> digit_value (digit_char d) = Some d"
  by (simp add: digit_value_def digit_char_def)

lemma nat_of_decimal_append:
  "nat_of_decimal (xs @ ys) acc =
     (case nat_of_decimal xs acc of None \<Rightarrow> None | Some a \<Rightarrow> nat_of_decimal ys a)"
  by (induction xs arbitrary: acc) (auto split: option.splits)

lemma nat_of_decimal_digits: "nat_of_decimal (digits n) 0 = Some n"
proof (induction n rule: digits.induct)
  case (1 n)
  show ?case
  proof (cases "n < 10")
    case True
    then show ?thesis
      by (subst digits.simps) (simp add: digit_value_digit_char)
  next
    case False
    have d: "digit_value (digit_char (n mod 10)) = Some (n mod 10)"
      by (rule digit_value_digit_char) simp
    from False 1 have "nat_of_decimal (digits (n div 10)) 0 = Some (n div 10)" by simp
    with False d show ?thesis
      by (subst digits.simps) (simp add: nat_of_decimal_append)
  qed
qed

lemma digits_not_Nil: "digits n \<noteq> []"
  by (subst digits.simps) simp

lemma digit_char_not_minus: "d < 10 \<Longrightarrow> digit_char d \<noteq> CHR ''-''"
proof
  assume d: "d < 10" and "digit_char d = CHR ''-''"
  then have "(of_char (digit_char d) :: nat) = of_char (CHR ''-'')" by simp
  then have "(48 + d) mod 256 = 45" by (simp add: digit_char_def)
  with d show False by simp
qed

lemma digits_no_minus: "CHR ''-'' \<notin> set (digits n)"
proof (induction n rule: digits.induct)
  case (1 n)
  show ?case
  proof (cases "n < 10")
    case True
    then show ?thesis using digit_char_not_minus [of n] by (subst digits.simps) simp
  next
    case False
    have "n mod 10 < 10" by simp
    then have "digit_char (n mod 10) \<noteq> CHR ''-''" by (rule digit_char_not_minus)
    with False 1 show ?thesis by (subst digits.simps) simp
  qed
qed

lemma int_of_decimal_str_int: "int_of_decimal (str_int i) = Some i"
proof (cases "i < 0")
  case True
  then show ?thesis
    by (simp add: str_int_def int_of_decimal_def digits_not_Nil nat_of_decimal_digits)
next
  case False
  obtain ch cs where ds: "digits (nat i) = ch # cs"
    using digits_not_Nil [of "nat i"] by (cases "digits (nat i)") auto
  have "ch \<noteq> CHR ''-''"
    using digits_no_minus [of "nat i"] ds by auto
  moreover have "nat_of_decimal (ch # cs) 0 = Some (nat i)"
    using nat_of_decimal_digits [of "nat i"] ds by simp
  ultimately show ?thesis
    using False ds by (simp add: str_int_def int_of_decimal_def del: nat_of_decimal.simps)
qed

lemma snd_send: "snd (send c req log) = log @ [req]"
  by (simp add: send_def)

text \<open>
  A \<^verbatim>\<open>DELETE\<close> template with a path free of spaces is one call of the session; a
  space in the path makes the unpacking in \<^verbatim>\<open>_request\<close> fail before any call.
\<close>

lemma request_DELETE:
  assumes "CHR '' '' \<notin> set path"
  shows "AppveyorClient_request c (''DELETE '' @ path) body json log =
         send c \<lparr>req_verb = ''DELETE'', req_url = endpoint c @ path,
                 req_data = None, req_json = None\<rparr> log"
  using assms
  by (simp add: AppveyorClient_request_def split_space_no_space lower_DELETE
      AppveyorClient_delete_def make_url_def)

lemma request_DELETE_space:
  assumes "CHR '' '' \<in> set path"
  shows "AppveyorClient_request c (''DELETE '' @ path) body json log = (Inl ValueError, log)"
proof -
  obtain w v ws where "split_space path = w # v # ws"
    using split_space_with_space [OF assms] by blast
  then show ?thesis
    by (simp add: AppveyorClient_request_def)
qed

lemma request_POST_builds:
  "AppveyorClient_request c ''POST /api/builds'' body json log =
   send c \<lparr>req_verb = ''POST'', req_url = endpoint c @ ''/api/builds'',
           req_data = body, req_json = json\<rparr> log"
  by (simp add: AppveyorClient_request_def lower_POST AppveyorClient_post_def make_url_def)

lemma request_POST_projects:
  "AppveyorClient_request c ''POST /api/projects'' body json log =
   send c \<lparr>req_verb = ''POST'', req_url = endpoint c @ ''/api/projects'',
           req_data = body, req_json = json\<rparr> log"
  by (simp add: AppveyorClient_request_def lower_POST AppveyorClient_post_def make_url_def)

lemma request_GET_projects:
  "AppveyorClient_request c ''GET /api/projects'' body json log =
   send c \<lparr>req_verb = ''GET'', req_url = endpoint c @ ''/api/projects'',
           req_data = None, req_json = None\<rparr> log"
  by (simp add: AppveyorClient_request_def lower_GET AppveyorClient_get_def make_url_def)

lemma format_users: "str_format ''DELETE /api/users'' kwargs = Inr ''DELETE /api/users''"
  by (simp add: str_format_def)

lemma format_users_id:
  "str_format ''DELETE /api/users/{user_id}'' [(''user_id'', v)] = Inr (''DELETE /api/users/'' @ v)"
  by (simp add: str_format_def)

section \<open>Properties of the response interpreter\<close>

text \<open>
  C5. A response whose status code is neither 200 nor 204 makes the interpreter raise
  \<^verbatim>\<open>AppveyorError\<close> (it does not return), and the \<^verbatim>\<open>status_code\<close> field of the
  record raised is the status code of the response.
\<close>

theorem other_status_raises_with_status_code:
  assumes "resp_status_code r \<noteq> 200" and "resp_status_code r \<noteq> 204"
  shows "\<exists>d. parse_response_contents r = Inl (AppveyorError (PDict d))
            \<and> map_of d ''status_code'' = Some (PInt (resp_status_code r))"
  using assms by (simp add: parse_response_contents_def)

theorem other_status_raises_with_status_code_witness:
  "\<exists>d. parse_response_contents
          \<lparr>resp_status_code = 404, resp_text = ''Not Found'', resp_json = None\<rparr>
        = Inl (AppveyorError (PDict d))
      \<and> map_of d ''status_code'' = Some (PInt 404)"
  using other_status_raises_with_status_code
    [of "\<lparr>resp_status_code = 404, resp_text = ''Not Found'', resp_json = None\<rparr>"]
  by simp

text \<open>
  C6. A response with status code 200 whose body decodes to the value \<open>V\<close> makes the
  interpreter return \<open>V\<close>; no error is raised.
\<close>

theorem status_200_returns_decoded_value:
  assumes "resp_status_code r = 200" and "resp_json r = Some V"
  shows "parse_response_contents r = Inr V"
  using assms by (simp add: parse_response_contents_def)

theorem status_200_returns_decoded_value_witness:
  "parse_response_contents
     \<lparr>resp_status_code = 200, resp_text = ''[1]'', resp_json = Some (PList [PInt 1])\<rparr>
   = Inr (PList [PInt 1])"
  using status_200_returns_decoded_value
    [of "\<lparr>resp_status_code = 200, resp_text = ''[1]'', resp_json = Some (PList [PInt 1])\<rparr>"
        "PList [PInt 1]"]
  by simp

text \<open>
  C7. A response with status code 204 makes the interpreter return \<^verbatim>\<open>None\<close>, whatever
  the body text is and whether the body would decode or not: the outcome does not depend
  on \<^verbatim>\<open>response.json()\<close>, and no error is raised.
\<close>

theorem status_204_returns_none:
  assumes "resp_status_code r = 204"
  shows "parse_response_contents (r\<lparr>resp_text := t, resp_json := j\<rparr>) = Inr PNone"
  using assms by (simp add: parse_response_contents_def)

theorem status_204_returns_none_witness:
  "parse_response_contents
     (\<lparr>resp_status_code = 204, resp_text = [], resp_json = None\<rparr>
        \<lparr>resp_text := ''not json'', resp_json := None\<rparr>) = Inr PNone"
  using status_204_returns_none
    [where r = "\<lparr>resp_status_code = 204, resp_text = [], resp_json = None\<rparr>"
       and t = "''not json''" and j = None]
  by simp

text \<open>
  C1, as stated, fails. The claim gives the failure record of a response with a status
  other than 200 and 204 a message: the trimmed body text, or the generic diagnostic when
  that is empty. A 404 response with the text \<^verbatim>\<open>Not Found\<close> and a 500 response with
  an empty text both raise a record with no \<^verbatim>\<open>error\<close> field.
\<close>

theorem failure_message_counterexample:
  "strip ''Not Found'' = ''Not Found''
   \<and> failure_field (parse_response_contents
         \<lparr>resp_status_code = 404, resp_text = ''Not Found'', resp_json = None\<rparr>) ''error''
       \<noteq> Some (PStr ''Not Found'')
   \<and> failure_field (parse_response_contents
         \<lparr>resp_status_code = 500, resp_text = [], resp_json = None\<rparr>) ''error''
       \<noteq> Some (PStr generic_error_msg)"
proof -
  have "strip ''Not Found'' = ''Not Found''" by code_simp
  then show ?thesis by (simp add: parse_response_contents_def)
qed

text \<open>
  C1, amended. For a status other than 200 and 204 the \<^verbatim>\<open>try\<close> block takes the empty
  dictionary and never reads the body, so the record raised holds the status code and
  nothing else: it has no message, whatever the body text is.
\<close>

theorem other_status_failure_has_no_message:
  assumes "resp_status_code r \<noteq> 200" and "resp_status_code r \<noteq> 204"
  shows "parse_response_contents r
           = Inl (AppveyorError (PDict [(''status_code'', PInt (resp_status_code r))]))
         \<and> failure_field (parse_response_contents r) ''error'' = None"
  using assms by (simp add: parse_response_contents_def)

theorem other_status_failure_has_no_message_witness:
  "parse_response_contents
     \<lparr>resp_status_code = 404, resp_text = ''Not Found'', resp_json = None\<rparr>
     = Inl (AppveyorError (PDict [(''status_code'', PInt 404)]))
   \<and> failure_field (parse_response_contents
         \<lparr>resp_status_code = 404, resp_text = ''Not Found'', resp_json = None\<rparr>) ''error''
       = None"
  using other_status_failure_has_no_message
    [of "\<lparr>resp_status_code = 404, resp_text = ''Not Found'', resp_json = None\<rparr>"]
  by simp

text \<open>
  The message is built only in the \<^verbatim>\<open>except\<close> block, which a response reaches with
  status 200 and a body that does not decode: an empty text gives the generic diagnostic,
  a non-empty text reads \<^verbatim>\<open>error_msg\<close> before any assignment.
\<close>

lemma undecodable_200_empty_text:
  assumes "resp_status_code r = 200" and "resp_json r = None" and "strip (resp_text r) = []"
  shows "parse_response_contents r
           = Inl (AppveyorError (PDict [(''status_code'', PInt 200),
                                        (''error'', PStr generic_error_msg)]))"
  using assms by (simp add: parse_response_contents_def)

lemma undecodable_200_nonempty_text:
  assumes "resp_status_code r = 200" and "resp_json r = None" and "strip (resp_text r) \<noteq> []"
  shows "parse_response_contents r = Inl (UnboundLocalError ''error_msg'')"
  using assms by (simp add: parse_response_contents_def)

section \<open>Properties of \<^verbatim>\<open>Builds.start\<close>\<close>

text \<open>
  C2, at the input where the code departs from it. A call that supplies only
  \<^verbatim>\<open>commit\<close>, such as \<^verbatim>\<open>start('acct', 'slug', commit='abc123')\<close>, raises
  \<^verbatim>\<open>AppveyorClientError\<close> and sends nothing, whatever the commit is: the test
  \<^verbatim>\<open>commit and not commit and not pull_request_number\<close> never holds.
\<close>

theorem Builds_start_commit_only_raises:
  "Builds_start dumps c account_name project_slug PNone PNone commit environment_variables log
   = (Inl (AppveyorClientError
        ''Must provide only one of branch or one pull request id or one commit id''), log)"
  by (simp add: Builds_start_def)

text \<open>
  The two other single choices do what C2 says: the body is the serialised dictionary
  with the field \<^verbatim>\<open>branch\<close>, or \<^verbatim>\<open>pullRequestId\<close>, added.
\<close>

lemma Builds_start_branch_only:
  assumes "truthy branch"
  shows "snd (Builds_start dumps c account_name project_slug branch PNone PNone (PDict []) log)
         = log @ [\<lparr>req_verb = ''POST'', req_url = endpoint c @ ''/api/builds'',
                    req_data = Some (dumps (PDict [(''accountName'', account_name),
                                 (''projectSlug'', project_slug), (''branch'', branch)])),
                    req_json = None\<rparr>]"
  using assms by (simp add: Builds_start_def request_POST_builds snd_send)

lemma Builds_start_pull_request_only:
  assumes "truthy pull_request_number"
  shows "snd (Builds_start dumps c account_name project_slug PNone pull_request_number PNone
                (PDict []) log)
         = log @ [\<lparr>req_verb = ''POST'', req_url = endpoint c @ ''/api/builds'',
                    req_data = Some (dumps (PDict [(''accountName'', account_name),
                                 (''projectSlug'', project_slug),
                                 (''pullRequestId'', pull_request_number)])),
                    req_json = None\<rparr>]"
  using assms by (simp add: Builds_start_def request_POST_builds snd_send)

text \<open>
  C4. A call with both \<^verbatim>\<open>branch\<close> and \<^verbatim>\<open>pull_request_number\<close> supplied, that is,
  both true as the method tests them (a non-empty name, a non-zero number), raises
  \<^verbatim>\<open>AppveyorClientError\<close> whatever \<^verbatim>\<open>commit\<close> is, and the list of requests sent
  is unchanged.
\<close>

theorem Builds_start_branch_and_pull_request_raises:
  assumes "truthy branch" and "truthy pull_request_number"
  shows "Builds_start dumps c account_name project_slug branch pull_request_number commit
           environment_variables log
         = (Inl (AppveyorClientError
              ''Must provide only one of branch or one pull request id or one commit id''), log)"
  using assms by (simp add: Builds_start_def)

theorem Builds_start_branch_and_pull_request_raises_witness:
  "truthy (PStr ''master'') \<and> truthy (PInt 7)
   \<and> Builds_start (\<lambda>v. ''{}'') \<lparr>endpoint = ''https://ci.appveyor.com/'', session = (\<lambda>req. Inl TransportError)\<rparr>
       (PStr ''acct'') (PStr ''slug'') (PStr ''master'') (PInt 7) PNone (PDict []) []
     = (Inl (AppveyorClientError
          ''Must provide only one of branch or one pull request id or one commit id''), [])"
proof -
  have b: "truthy (PStr ''master'')" and p: "truthy (PInt 7)" by simp_all
  show ?thesis
    using b p Builds_start_branch_and_pull_request_raises [OF b p] by simp
qed

section \<open>Properties of \<^verbatim>\<open>Roles.delete_role\<close>\<close>

text \<open>
  C3, at the input where the code departs from it. \<^verbatim>\<open>delete_role(5)\<close>, and a call
  with any other \<^verbatim>\<open>role_id\<close>, sends one \<^verbatim>\<open>DELETE\<close> request whose URL ends with
  the template text \<^verbatim>\<open>/api/roles/{role_id}\<close>: the field is never replaced, and the
  URL does not depend on \<^verbatim>\<open>role_id\<close>.
\<close>

theorem Roles_delete_role_url_literal:
  "snd (Roles_delete_role c role_id log)
   = log @ [\<lparr>req_verb = ''DELETE'', req_url = endpoint c @ ''/api/roles/{role_id}'',
              req_data = None, req_json = None\<rparr>]"
proof -
  have "CHR '' '' \<notin> set ''/api/roles/{role_id}''" by simp
  then have "AppveyorClient_request c (''DELETE '' @ ''/api/roles/{role_id}'') None None log
      = send c \<lparr>req_verb = ''DELETE'', req_url = endpoint c @ ''/api/roles/{role_id}'',
                 req_data = None, req_json = None\<rparr> log"
    by (rule request_DELETE)
  then show ?thesis by (simp add: Roles_delete_role_def snd_send)
qed

section \<open>Properties of \<^verbatim>\<open>Projects.add\<close>\<close>

text \<open>
  C8. When \<^verbatim>\<open>repository_provider\<close> is not one of the nine provider names,
  \<^verbatim>\<open>Projects.add\<close> raises \<^verbatim>\<open>AppveyorClientError\<close> with a message that lists the
  nine names, and the list of requests sent is unchanged. When it is one of them, one
  \<^verbatim>\<open>POST\<close> request goes to \<^verbatim>\<open>/api/projects\<close>, its body the serialised dictionary
  of \<^verbatim>\<open>repositoryProvider\<close> and \<^verbatim>\<open>repositoryName\<close>.
\<close>

theorem Projects_add_checks_provider:
  "(repository_provider \<notin> PStr ` {''gitHub'', ''bitBucket'', ''vso'', ''gitLab'', ''kiln'',
        ''stash'', ''git'', ''mercurial'', ''subversion''} \<longrightarrow>
      Projects_add dumps c repository_provider repository_name log
      = (Inl (AppveyorClientError
           ''Invalid repository provider. Must be one of ['gitHub', 'bitBucket', 'vso', 'gitLab', 'kiln', 'stash', 'git', 'mercurial', 'subversion']''),
         log))
   \<and> (repository_provider \<in> PStr ` {''gitHub'', ''bitBucket'', ''vso'', ''gitLab'', ''kiln'',
        ''stash'', ''git'', ''mercurial'', ''subversion''} \<longrightarrow>
      snd (Projects_add dumps c repository_provider repository_name log)
      = log @ [\<lparr>req_verb = ''POST'', req_url = endpoint c @ ''/api/projects'',
                 req_data = Some (dumps (PDict [(''repositoryProvider'', repository_provider),
                                                (''repositoryName'', repository_name)])),
                 req_json = None\<rparr>])"
proof -
  have set_eq: "set (map PStr providers) = PStr ` {''gitHub'', ''bitBucket'', ''vso'', ''gitLab'',
        ''kiln'', ''stash'', ''git'', ''mercurial'', ''subversion''}"
    by (simp add: providers_def)
  have msg: "''Invalid repository provider. Must be one of '' @ str_list providers
      = ''Invalid repository provider. Must be one of ['gitHub', 'bitBucket', 'vso', 'gitLab', 'kiln', 'stash', 'git', 'mercurial', 'subversion']''"
    by (simp add: providers_def str_list_def repr_str_def)
  show ?thesis
    unfolding Projects_add_def set_eq msg Let_def
    by (simp add: request_POST_projects snd_send)
qed

theorem Projects_add_checks_provider_witness:
  "Projects_add (\<lambda>v. ''{}'') \<lparr>endpoint = ''https://ci.appveyor.com/'', session = (\<lambda>req. Inl TransportError)\<rparr>
      (PStr ''svn'') (PStr ''acct/repo'') []
      = (Inl (AppveyorClientError
           ''Invalid repository provider. Must be one of ['gitHub', 'bitBucket', 'vso', 'gitLab', 'kiln', 'stash', 'git', 'mercurial', 'subversion']''),
         [])
   \<and> snd (Projects_add (\<lambda>v. ''{}'') \<lparr>endpoint = ''https://ci.appveyor.com/'', session = (\<lambda>req. Inl TransportError)\<rparr>
      (PStr ''gitHub'') (PStr ''acct/repo'') [])
      = [\<lparr>req_verb = ''POST'', req_url = ''https://ci.appveyor.com//api/projects'',
                 req_data = Some ''{}'',
                 req_json = None\<rparr>]"
  using Projects_add_checks_provider [of "PStr ''svn''" "\<lambda>v. ''{}''"
      "\<lparr>endpoint = ''https://ci.appveyor.com/'', session = (\<lambda>req. Inl TransportError)\<rparr>"
      "PStr ''acct/repo''" "[]"]
    Projects_add_checks_provider [of "PStr ''gitHub''" "\<lambda>v. ''{}''"
      "\<lparr>endpoint = ''https://ci.appveyor.com/'', session = (\<lambda>req. Inl TransportError)\<rparr>"
      "PStr ''acct/repo''" "[]"]
  by simp

section \<open>Properties of \<^verbatim>\<open>Collaborators.get\<close>\<close>

text \<open>
  C9. Every request \<^verbatim>\<open>Collaborators.get\<close> sends is a \<^verbatim>\<open>DELETE\<close> on
  \<^verbatim>\<open>/api/users\<close>, never a \<^verbatim>\<open>GET\<close> and never on a collaborators path. Without a
  \<^verbatim>\<open>user_id\<close> the path is \<^verbatim>\<open>/api/users\<close>; with one that the method takes as
  given (a non-zero integer, a non-empty string) its string is appended after a slash:
  the string itself, or the decimal numeral of the integer, which reads back as that
  integer. An integer always sends one request. A string with a space makes the unpacking
  in \<^verbatim>\<open>_request\<close> fail, and then nothing is sent.
\<close>

theorem Collaborators_get_sends_delete_users:
  "snd (Collaborators_get c IdNone log)
     = log @ [\<lparr>req_verb = ''DELETE'', req_url = endpoint c @ ''/api/users'',
                req_data = None, req_json = None\<rparr>]
   \<and> snd (Collaborators_get c (IdInt n) log)
     = log @ [\<lparr>req_verb = ''DELETE'',
                req_url = endpoint c @ ''/api/users'' @ (if n = 0 then [] else ''/'' @ str_int n),
                req_data = None, req_json = None\<rparr>]
   \<and> snd (Collaborators_get c (IdStr s) log)
     = (if CHR '' '' \<in> set s then log
        else log @ [\<lparr>req_verb = ''DELETE'',
                req_url = endpoint c @ ''/api/users'' @ (if s = [] then [] else ''/'' @ s),
                req_data = None, req_json = None\<rparr>])
   \<and> int_of_decimal (str_int n) = Some n"
proof -
  have plain: "AppveyorClient_request c ''DELETE /api/users'' None None log
      = send c \<lparr>req_verb = ''DELETE'', req_url = endpoint c @ ''/api/users'',
                 req_data = None, req_json = None\<rparr> log"
    using request_DELETE [of "''/api/users''" c None None log] by simp
  have with_id: "AppveyorClient_request c (''DELETE /api/users/'' @ v) None None log
      = (if CHR '' '' \<in> set v then (Inl ValueError, log)
         else send c \<lparr>req_verb = ''DELETE'', req_url = endpoint c @ ''/api/users/'' @ v,
                 req_data = None, req_json = None\<rparr> log)" for v
    using request_DELETE [of "''/api/users/'' @ v" c None None log]
      request_DELETE_space [of "''/api/users/'' @ v" c None None log]
    by simp
  have none: "snd (Collaborators_get c IdNone log)
     = log @ [\<lparr>req_verb = ''DELETE'', req_url = endpoint c @ ''/api/users'',
                req_data = None, req_json = None\<rparr>]"
    by (simp add: Collaborators_get_def format_users plain snd_send)
  have int: "snd (Collaborators_get c (IdInt n) log)
     = log @ [\<lparr>req_verb = ''DELETE'',
                req_url = endpoint c @ ''/api/users'' @ (if n = 0 then [] else ''/'' @ str_int n),
                req_data = None, req_json = None\<rparr>]"
    using with_id [of "str_int n"]
    by (simp add: Collaborators_get_def format_users format_users_id plain
        str_int_no_space snd_send)
  have str: "snd (Collaborators_get c (IdStr s) log)
     = (if CHR '' '' \<in> set s then log
        else log @ [\<lparr>req_verb = ''DELETE'',
                req_url = endpoint c @ ''/api/users'' @ (if s = [] then [] else ''/'' @ s),
                req_data = None, req_json = None\<rparr>])"
    using with_id [of s]
    by (simp add: Collaborators_get_def format_users format_users_id plain snd_send)
  have numeral: "int_of_decimal (str_int n) = Some n"
    by (rule int_of_decimal_str_int)
  from none int str numeral show ?thesis by blast
qed

theorem Collaborators_get_sends_delete_users_witness:
  "snd (Collaborators_get
          \<lparr>endpoint = ''https://ci.appveyor.com'', session = (\<lambda>req. Inl TransportError)\<rparr>
          IdNone [])
   = [\<lparr>req_verb = ''DELETE'', req_url = ''https://ci.appveyor.com/api/users'',
        req_data = None, req_json = None\<rparr>]
   \<and> snd (Collaborators_get
          \<lparr>endpoint = ''https://ci.appveyor.com'', session = (\<lambda>req. Inl TransportError)\<rparr>
          (IdInt 42) [])
   = [\<lparr>req_verb = ''DELETE'', req_url = ''https://ci.appveyor.com/api/users/42'',
        req_data = None, req_json = None\<rparr>]
   \<and> snd (Collaborators_get
          \<lparr>endpoint = ''https://ci.appveyor.com'', session = (\<lambda>req. Inl TransportError)\<rparr>
          (IdStr ''u42'') [])
   = [\<lparr>req_verb = ''DELETE'', req_url = ''https://ci.appveyor.com/api/users/u42'',
        req_data = None, req_json = None\<rparr>]
   \<and> int_of_decimal ''42'' = Some 42"
  using Collaborators_get_sends_delete_users
    [of "\<lparr>endpoint = ''https://ci.appveyor.com'', session = (\<lambda>req. Inl TransportError)\<rparr>"
        "[]" 42 "''u42''"]
  by (simp add: str_int_42)

section \<open>Properties of \<^verbatim>\<open>account_slug_for_repo\<close>\<close>

text \<open>
  When every project carries a repository name that differs from the name looked for,
  lower case compared with lower case, the loop ends with nothing assigned.
\<close>

lemma find_project_no_match:
  assumes "\<forall>p\<in>set ps. \<exists>d name. p = PDict d \<and> map_of d ''repositoryName'' = Some (PStr name)
             \<and> lower name \<noteq> lower repo_full_name"
  shows "find_project ps repo_full_name = Inr None"
  using assms
proof (induction ps)
  case Nil
  then show ?case by simp
next
  case (Cons p ps)
  then obtain d name where p: "p = PDict d" "map_of d ''repositoryName'' = Some (PStr name)"
      "lower name \<noteq> lower repo_full_name"
    by auto
  from Cons have "find_project ps repo_full_name = Inr None" by simp
  with p show ?case by simp
qed

text \<open>
  C10. When \<^verbatim>\<open>Projects.get\<close> returns a list of projects and none of them has a
  \<^verbatim>\<open>repositoryName\<close> equal to \<^verbatim>\<open>repo_full_name\<close> up to case, the call neither
  returns nor raises \<^verbatim>\<open>AppveyorError\<close>: it raises \<^verbatim>\<open>UnboundLocalError\<close> for
  \<^verbatim>\<open>account_name\<close>, the first of the two unassigned variables the test reads.
\<close>

theorem account_slug_for_repo_no_match_unbound:
  assumes "fst (Projects_get c log) = Inr (PList ps)"
    and "\<forall>p\<in>set ps. \<exists>d name. p = PDict d \<and> map_of d ''repositoryName'' = Some (PStr name)
             \<and> lower name \<noteq> lower repo_full_name"
  shows "fst (account_slug_for_repo c repo_full_name log) = Inl (UnboundLocalError ''account_name'')"
proof -
  obtain log' where "Projects_get c log = (Inr (PList ps), log')"
    using assms(1) by (cases "Projects_get c log") simp
  then show ?thesis
    using find_project_no_match [OF assms(2)]
    by (simp add: account_slug_for_repo_def)
qed

theorem account_slug_for_repo_no_match_unbound_witness:
  "fst (account_slug_for_repo
          \<lparr>endpoint = ''https://ci.appveyor.com'',
           session = (\<lambda>req. Inr \<lparr>resp_status_code = 200, resp_text = ''[...]'',
              resp_json = Some (PList [PDict [(''repositoryName'', PStr ''Acct/Repo''),
                (''accountName'', PStr ''acct''), (''slug'', PStr ''repo'')]])\<rparr>)\<rparr>
          ''other/name'' [])
   = Inl (UnboundLocalError ''account_name'')"
proof -
  let ?p = "PDict [(''repositoryName'', PStr ''Acct/Repo''),
                (''accountName'', PStr ''acct''), (''slug'', PStr ''repo'')]"
  let ?c = "\<lparr>endpoint = ''https://ci.appveyor.com'',
           session = (\<lambda>req. Inr \<lparr>resp_status_code = 200, resp_text = ''[...]'',
              resp_json = Some (PList [?p])\<rparr>)\<rparr>"
  have fetched: "fst (Projects_get ?c []) = Inr (PList [?p])"
    by (simp add: Projects_get_def request_GET_projects send_def parse_response_contents_def)
  have differ: "lower ''Acct/Repo'' \<noteq> lower ''other/name''"
    by code_simp
  then have others: "\<forall>p\<in>set [?p]. \<exists>d name. p = PDict d
      \<and> map_of d ''repositoryName'' = Some (PStr name) \<and> lower name \<noteq> lower ''other/name''"
    by simp
  show ?thesis
    using account_slug_for_repo_no_match_unbound [OF fetched others] by simp
qed

text \<open>A project whose name matches up to case is found and returned.\<close>

lemma account_slug_for_repo_match_example:
  "fst (account_slug_for_repo
          \<lparr>endpoint = ''https://ci.appveyor.com'',
           session = (\<lambda>req. Inr \<lparr>resp_status_code = 200, resp_text = ''[...]'',
              resp_json = Some (PList [PDict [(''repositoryName'', PStr ''Acct/Repo''),
                (''accountName'', PStr ''acct''), (''slug'', PStr ''repo'')]])\<rparr>)\<rparr>
          ''acct/REPO'' [])
   = Inr (PStr ''acct'', PStr ''repo'')"
proof -
  have same: "lower ''Acct/Repo'' = lower ''acct/REPO''"
    by code_simp
  then show ?thesis
    by (simp add: account_slug_for_repo_def Projects_get_def request_GET_projects send_def
        parse_response_contents_def)
qed

end
